theory Spec2Isabelle
  imports Complex_Main "HOL-Library.Word"
begin

section \<open>The ndt7 download handler (ndt7/server.go)\<close>

text \<open>
  The development follows \<^verbatim>\<open>ndt7/server.go\<close>: the stopping heuristic
  \<^verbatim>\<open>stoppableAccordingToBW\<close> and the handler \<^verbatim>\<open>DownloadHandler.ServeHTTP\<close>
  with its query-string validation, its subprotocol check and its measurement loop.
  Go's \<^verbatim>\<open>int64\<close> and \<^verbatim>\<open>time.Duration\<close> are 64-bit words read as two's
  complement; a \<^verbatim>\<open>float64\<close> bandwidth sample is the real number it denotes
  (rounding, infinities and NaN are outside the model).
\<close>

type_synonym int64 = "64 word"

subsection \<open>The stopping heuristic\<close>

text \<open>
  \<^verbatim>\<open>return cur >= prev && (cur - prev) < (0.25 * prev)\<close>
\<close>

definition stoppableAccordingToBW :: "real \<Rightarrow> real \<Rightarrow> bool" where
  "stoppableAccordingToBW prev cur \<longleftrightarrow> cur \<ge> prev \<and> (cur - prev) < (0.25 * prev)"


subsection \<open>Constants\<close>

text \<open>
  \<^verbatim>\<open>time.Second\<close> is \<open>10\<^sup>9\<close> nanoseconds; \<^verbatim>\<open>defaultDuration = 10 * time.Second\<close>,
  \<^verbatim>\<open>maxDuration = 30\<close>, \<^verbatim>\<open>bufferSize = 1 << 13\<close>,
  \<^verbatim>\<open>http.StatusBadRequest = 400\<close>. The websocket library's
  \<^verbatim>\<open>CloseMessage\<close> is opcode 8 and \<^verbatim>\<open>CloseNormalClosure\<close> is status 1000.
\<close>

definition Second :: int64 where
  "Second = 1000000000"

definition defaultDuration :: int64 where
  "defaultDuration = 10 * Second"

definition maxDuration :: int where
  "maxDuration = 30"

definition bufferSize :: int64 where
  "bufferSize = push_bit 13 1"

definition StatusBadRequest :: nat where
  "StatusBadRequest = 400"

definition CloseMessage :: nat where
  "CloseMessage = 8"

definition CloseNormalClosure :: nat where
  "CloseNormalClosure = 1000"

text \<open>
  The package-level constants that \<^verbatim>\<open>server.go\<close> uses and another file of
  the package declares are parameters of the model.
\<close>

record package_consts =
  SecWebSocketProtocol :: string
  MinMaxMessageSize :: int
  MinMeasurementInterval :: int64
  defaultTimeout :: int64

subsection \<open>Parsing the duration: \<^verbatim>\<open>strconv.Atoi\<close>\<close>

text \<open>
  \<^verbatim>\<open>strconv.Atoi\<close> belongs to Go's standard library. It is
  \<^verbatim>\<open>ParseInt(s, 10, 0)\<close>: an optional sign, then \<^verbatim>\<open>ParseUint\<close> on the rest,
  which wants at least one character, reads bytes left to right, fails with a syntax
  error at the first byte that is not a decimal digit and with a range error as soon
  as the value leaves 64 bits; the signed value must then fit \<^verbatim>\<open>int\<close> (64 bits).
\<close>

datatype NumError = ErrSyntax | ErrRange

text \<open>\<^verbatim>\<open>ch -= '0'; if ch > 9 { syntax error }\<close> on a byte.\<close>

definition digit :: "char \<Rightarrow> nat option" where
  "digit ch = (let d = (of_char ch :: 8 word) - 48 in if d > 9 then None else Some (unat d))"

fun ParseUint_from :: "nat \<Rightarrow> string \<Rightarrow> NumError + nat" where
  "ParseUint_from n [] = Inr n"
| "ParseUint_from n (c # cs) =
     (case digit c of
        None \<Rightarrow> Inl ErrSyntax
      | Some d \<Rightarrow>
          if n * 10 + d \<ge> 2 ^ 64 then Inl ErrRange
          else ParseUint_from (n * 10 + d) cs)"

definition ParseUint :: "string \<Rightarrow> NumError + nat" where
  "ParseUint s = (if s = [] then Inl ErrSyntax else ParseUint_from 0 s)"

definition Atoi :: "string \<Rightarrow> NumError + int" where
  "Atoi s =
     (if s = [] then Inl ErrSyntax
      else
        let neg = (hd s = CHR ''-'');
            s' = (if hd s = CHR ''+'' \<or> hd s = CHR ''-'' then tl s else s)
        in case ParseUint s' of
             Inl ErrSyntax \<Rightarrow> Inl ErrSyntax
           | Inl ErrRange \<Rightarrow> Inl ErrRange
           | Inr un \<Rightarrow>
               if \<not> neg \<and> un \<ge> 2 ^ 63 then Inl ErrRange
               else if neg \<and> un > 2 ^ 63 then Inl ErrRange
               else Inr (if neg then - int un else int un))"

subsection \<open>Requests, effects and the environment\<close>

text \<open>
  \<^verbatim>\<open>url.Values\<close> and \<^verbatim>\<open>http.Header\<close> are maps from a name to the list of its
  values; a name that is absent has no values. \<^verbatim>\<open>Get\<close> returns the first value
  of a name, and the empty string when there is none.
\<close>

type_synonym Values = "string \<Rightarrow> string list"

definition Get :: "Values \<Rightarrow> string \<Rightarrow> string" where
  "Get v key = (case v key of [] \<Rightarrow> [] | x # _ \<Rightarrow> x)"

record request =
  URL_Query :: Values
  Header :: Values

text \<open>
  Modelled from the spec: the type \<^verbatim>\<open>Measurement\<close> is declared in another file
  of the package; the measurement frame is
  \<^verbatim>\<open>{ "Elapsed": <int64 nanoseconds>, "NumBytes": <int64> }\<close>.
\<close>

record Measurement =
  Elapsed :: int64
  NumBytes :: int64

text \<open>
  What the handler does to the response writer, the connection and the ticker, in
  order. A write carries whether it succeeded. A deadline is
  \<^verbatim>\<open>time.Now().Add(d)\<close>; \<^verbatim>\<open>FormatCloseMessage(code, text)\<close> is the pair of
  its arguments.
\<close>

datatype deadline = NowPlus int64

definition FormatCloseMessage :: "nat \<Rightarrow> string \<Rightarrow> nat \<times> string" where
  "FormatCloseMessage closeCode text = (closeCode, text)"

datatype action =
    Header_Set string string
  | WriteHeader nat
  | Upgrade "(string \<times> string) list" bool
  | SetReadLimit int
  | NewTicker int64
  | SetWriteDeadline deadline
  | WritePreparedMessage bool
  | WriteJSON Measurement bool
  | WriteControl nat "nat \<times> string" deadline
  | TickerStop
  | ConnClose

text \<open>
  One iteration of the loop reads the environment once. \<open>Tick t info ok\<close>: the
  ticker's channel is ready, \<open>t\<close> is \<^verbatim>\<open>t.Sub(t0)\<close>, \<open>info\<close> is what
  \<^verbatim>\<open>bbr.GetBBRInfo\<close> gives when it is called (\<open>None\<close> for an error, else
  bandwidth and round-trip time) and \<open>ok\<close> whether \<^verbatim>\<open>WriteJSON\<close> succeeds.
  \<open>NoTick now ok\<close>: the channel is not ready, \<open>now\<close> is
  \<^verbatim>\<open>time.Now().Sub(t0)\<close> and \<open>ok\<close> whether \<^verbatim>\<open>WritePreparedMessage\<close> succeeds.
\<close>

datatype event =
    Tick int64 "(real \<times> real) option" bool
  | NoTick int64 bool

record env =
  upgrade_ok :: bool
  ExtractBBRFd :: int
  prepared_ok :: bool
  events :: "event list"

text \<open>
  How the loop ends: the duration has elapsed (with the clock reading that ended it),
  the heuristic fired, a write failed, or the events ran out with the loop still
  running.
\<close>

datatype outcome = DurationElapsed int64 | BandwidthPlateau | WriteFailed | Unfinished

datatype result =
    InvalidDuration
  | MissingProtocol
  | UpgradeFailed
  | PrepareFailed
  | Session int64 outcome

subsection \<open>The measurement loop\<close>

definition emit :: "action list \<Rightarrow> action list \<times> outcome \<Rightarrow> action list \<times> outcome" where
  "emit ws r = (ws @ fst r, snd r)"

text \<open>
  \<^verbatim>\<open>for running := true; running; { select { case t := <-ticker.C: ... default: ... } }\<close>
  with the counter \<^verbatim>\<open>count\<close> and the retained sample \<^verbatim>\<open>bandwidth\<close>.
\<close>

fun loop :: "package_consts \<Rightarrow> int \<Rightarrow> int64 \<Rightarrow> int64 \<Rightarrow> real \<Rightarrow> event list \<Rightarrow> action list \<times> outcome" where
  "loop cs fd duration count bandwidth [] = ([], Unfinished)"
| "loop cs fd duration count bandwidth (Tick t info ok # evs) =
     (let measurement = \<lparr>Elapsed = t, NumBytes = count\<rparr>;
          sample = (if fd \<noteq> - 1 then info else None);
          running = (case sample of
                       Some (bw, rtt) \<Rightarrow> \<not> stoppableAccordingToBW bandwidth bw
                     | None \<Rightarrow> True);
          bandwidth' = (case sample of Some (bw, rtt) \<Rightarrow> bw | None \<Rightarrow> bandwidth);
          writes = [SetWriteDeadline (NowPlus (defaultTimeout cs)), WriteJSON measurement ok]
      in if \<not> ok then (writes, WriteFailed)
         else if running then emit writes (loop cs fd duration count bandwidth' evs)
         else (writes, BandwidthPlateau))"
| "loop cs fd duration count bandwidth (NoTick now ok # evs) =
     (if sint now \<ge> sint duration then ([], DurationElapsed now)
      else
        let writes = [SetWriteDeadline (NowPlus (defaultTimeout cs)), WritePreparedMessage ok]
        in if \<not> ok then (writes, WriteFailed)
           else emit writes (loop cs fd duration (count + bufferSize) bandwidth evs))"

subsection \<open>The handler\<close>

text \<open>
  The block that reads the \<^verbatim>\<open>duration\<close> option: \<open>None\<close> is the early return
  with status 400.
\<close>

definition query_duration :: "request \<Rightarrow> int64 option" where
  "query_duration request =
     (let s = Get (URL_Query request) ''duration''
      in if s \<noteq> [] then
           (case Atoi s of
              Inl err \<Rightarrow> None
            | Inr v \<Rightarrow>
                if v < 0 \<or> v > maxDuration then None
                else Some (Second * word_of_int v))
         else Some defaultDuration)"

definition bad_request :: "action list" where
  "bad_request = [Header_Set ''Connection'' ''Close'', WriteHeader StatusBadRequest]"

definition closing :: "package_consts \<Rightarrow> action list" where
  "closing cs =
     [WriteControl CloseMessage (FormatCloseMessage CloseNormalClosure [])
        (NowPlus (defaultTimeout cs))]"

text \<open>
  The effects of the handler around the loop. \<open>opened\<close>: the upgrade, echoing the
  subprotocol, and \<^verbatim>\<open>conn.SetReadLimit(MinMaxMessageSize)\<close>. \<open>started\<close>: the same
  and \<^verbatim>\<open>time.NewTicker(MinMeasurementInterval)\<close>. \<open>finish\<close>: what follows the
  loop. After a failed write the handler returns, and only the deferred
  \<^verbatim>\<open>ticker.Stop()\<close> and \<^verbatim>\<open>conn.Close()\<close> run; when the loop condition ends the
  loop, \<^verbatim>\<open>conn.WriteControl\<close> sends the close frame first; while the loop is
  still running nothing has followed it.
\<close>

definition opened :: "package_consts \<Rightarrow> action list" where
  "opened cs =
     [Upgrade [(''Sec-WebSocket-Protocol'', SecWebSocketProtocol cs)] True,
      SetReadLimit (MinMaxMessageSize cs)]"

definition started :: "package_consts \<Rightarrow> action list" where
  "started cs = opened cs @ [NewTicker (MinMeasurementInterval cs)]"

definition finish :: "package_consts \<Rightarrow> outcome \<Rightarrow> action list" where
  "finish cs out =
     (case out of
        WriteFailed \<Rightarrow> [TickerStop, ConnClose]
      | Unfinished \<Rightarrow> []
      | _ \<Rightarrow> closing cs @ [TickerStop, ConnClose])"

definition ServeHTTP :: "package_consts \<Rightarrow> request \<Rightarrow> env \<Rightarrow> action list \<times> result" where
  "ServeHTTP cs request e =
     (case query_duration request of
        None \<Rightarrow> (bad_request, InvalidDuration)
      | Some duration \<Rightarrow>
          if Get (Header request) ''Sec-WebSocket-Protocol'' \<noteq> SecWebSocketProtocol cs
          then (bad_request, MissingProtocol)
          else if \<not> upgrade_ok e
          then ([Upgrade [(''Sec-WebSocket-Protocol'', SecWebSocketProtocol cs)] False],
                UpgradeFailed)
          else if \<not> prepared_ok e
          then (opened cs @ [ConnClose], PrepareFailed)
          else
            case loop cs (ExtractBBRFd e) duration 0 0 (events e) of
              (tr, out) \<Rightarrow> (started cs @ tr @ finish cs out, Session duration out))"

subsection \<open>Reading a trace\<close>

text \<open>
  The close control frame is the only \<^verbatim>\<open>WriteControl\<close>; a failed write is a data
  frame or a measurement frame whose write returned an error; \<open>frames\<close> counts the
  data frames that were sent; an event has a sample when \<^verbatim>\<open>bbr.GetBBRInfo\<close> would
  return one.
\<close>

fun is_WriteControl :: "action \<Rightarrow> bool" where
  "is_WriteControl (WriteControl t p d) = True"
| "is_WriteControl _ = False"

fun failed_write :: "action \<Rightarrow> bool" where
  "failed_write (WritePreparedMessage ok) = (\<not> ok)"
| "failed_write (WriteJSON m ok) = (\<not> ok)"
| "failed_write _ = False"

definition frames :: "action list \<Rightarrow> nat" where
  "frames tr = length (filter (\<lambda>a. a = WritePreparedMessage True) tr)"

fun has_sample :: "event \<Rightarrow> bool" where
  "has_sample (Tick t (Some s) ok) = True"
| "has_sample _ = False"

subsection \<open>Sample inputs\<close>

text \<open>
  Concrete values for the package constants (the ndt7 subprotocol name, a read limit
  of \<open>2\<^sup>1\<^sup>7\<close> bytes, a tick every 250 ms, a write timeout of 7 s), a request with
  given values of \<^verbatim>\<open>duration\<close> and of the subprotocol header, and three runs of the
  environment: one where the bandwidth stops growing, one where a write blocks for
  two seconds, one where a write fails.
\<close>

definition sample_consts :: package_consts where
  "sample_consts =
     \<lparr>SecWebSocketProtocol = ''net.measurementlab.ndt.v7'',
      MinMaxMessageSize = 131072,
      MinMeasurementInterval = 250000000,
      defaultTimeout = 7000000000\<rparr>"

definition sample_request :: "string list \<Rightarrow> string list \<Rightarrow> request" where
  "sample_request durations protocols =
     \<lparr>URL_Query = (\<lambda>key. [])(''duration'' := durations),
      Header = (\<lambda>key. [])(''Sec-WebSocket-Protocol'' := protocols)\<rparr>"

definition sample_env :: "int \<Rightarrow> event list \<Rightarrow> env" where
  "sample_env fd evs =
     \<lparr>upgrade_ok = True, ExtractBBRFd = fd, prepared_ok = True, events = evs\<rparr>"

definition plateau_events :: "event list" where
  "plateau_events =
     [NoTick 100000000 True, Tick 250000000 (Some (100, 3000)) True,
      NoTick 300000000 True, Tick 500000000 (Some (120, 3000)) True,
      NoTick 600000000 True]"

definition slow_events :: "event list" where
  "slow_events =
     [NoTick 100000000 True, Tick 250000000 None True, NoTick 2100000000 True]"

definition failing_events :: "event list" where
  "failing_events =
     [NoTick 100000000 True, Tick 250000000 None True, NoTick 300000000 False,
      NoTick 400000000 True]"

section \<open>Auxiliary facts\<close>

subsection \<open>Evaluation of the sample inputs\<close>

lemmas sample_defs =
  sample_consts_def sample_request_def sample_env_def ServeHTTP_def query_duration_def
  Get_def Atoi_def ParseUint_def digit_def maxDuration_def Second_def defaultDuration_def
  bufferSize_def closing_def bad_request_def StatusBadRequest_def CloseMessage_def
  CloseNormalClosure_def FormatCloseMessage_def emit_def stoppableAccordingToBW_def
  opened_def started_def finish_def plateau_events_def slow_events_def failing_events_def

lemma plateau_run:
  "ServeHTTP sample_consts (sample_request [''1''] [''net.measurementlab.ndt.v7''])
     (sample_env 5 plateau_events) =
   ([Upgrade [(''Sec-WebSocket-Protocol'', ''net.measurementlab.ndt.v7'')] True,
     SetReadLimit 131072, NewTicker 250000000,
     SetWriteDeadline (NowPlus 7000000000), WritePreparedMessage True,
     SetWriteDeadline (NowPlus 7000000000),
     WriteJSON \<lparr>Elapsed = 250000000, NumBytes = 8192\<rparr> True,
     SetWriteDeadline (NowPlus 7000000000), WritePreparedMessage True,
     SetWriteDeadline (NowPlus 7000000000),
     WriteJSON \<lparr>Elapsed = 500000000, NumBytes = 16384\<rparr> True,
     WriteControl 8 (1000, []) (NowPlus 7000000000), TickerStop, ConnClose],
    Session 1000000000 BandwidthPlateau)"
  by (simp add: sample_defs)

lemma slow_run:
  "ServeHTTP sample_consts (sample_request [''1''] [''net.measurementlab.ndt.v7''])
     (sample_env (- 1) slow_events) =
   ([Upgrade [(''Sec-WebSocket-Protocol'', ''net.measurementlab.ndt.v7'')] True,
     SetReadLimit 131072, NewTicker 250000000,
     SetWriteDeadline (NowPlus 7000000000), WritePreparedMessage True,
     SetWriteDeadline (NowPlus 7000000000),
     WriteJSON \<lparr>Elapsed = 250000000, NumBytes = 8192\<rparr> True,
     WriteControl 8 (1000, []) (NowPlus 7000000000), TickerStop, ConnClose],
    Session 1000000000 (DurationElapsed 2100000000))"
  by (simp add: sample_defs)

lemma failing_run:
  "ServeHTTP sample_consts (sample_request [''1''] [''net.measurementlab.ndt.v7''])
     (sample_env (- 1) failing_events) =
   ([Upgrade [(''Sec-WebSocket-Protocol'', ''net.measurementlab.ndt.v7'')] True,
     SetReadLimit 131072, NewTicker 250000000,
     SetWriteDeadline (NowPlus 7000000000), WritePreparedMessage True,
     SetWriteDeadline (NowPlus 7000000000),
     WriteJSON \<lparr>Elapsed = 250000000, NumBytes = 8192\<rparr> True,
     SetWriteDeadline (NowPlus 7000000000), WritePreparedMessage False,
     TickerStop, ConnClose],
    Session 1000000000 WriteFailed)"
  by (simp add: sample_defs)

subsection \<open>Signed readings of 64-bit values\<close>

lemma sint_word_of_int64: "sint (word_of_int k :: int64) = signed_take_bit 63 k"
  by (simp add: sint_sbintrunc')

lemma sint_seconds:
  assumes "0 \<le> v" and "v \<le> 30"
  shows "sint (Second * word_of_int v) = v * 1000000000"
proof -
  have eq: "Second * word_of_int v = (word_of_int (1000000000 * v) :: int64)"
    by (simp add: Second_def)
  have fits: "signed_take_bit 63 (1000000000 * v) = 1000000000 * v"
    using assms by (intro signed_take_bit_int_eq_self) auto
  show ?thesis
    unfolding eq sint_word_of_int64 fits by simp
qed

lemma sint_defaultDuration: "sint defaultDuration = 10 * 1000000000"
  by (simp add: defaultDuration_def Second_def)

lemma sint_frames:
  assumes "n < 2 ^ 50"
  shows "sint (bufferSize * word_of_nat n) = 8192 * int n"
proof -
  have eq: "bufferSize * word_of_nat n = (word_of_int (8192 * int n) :: int64)"
    by (simp add: bufferSize_def)
  have fits: "signed_take_bit 63 (8192 * int n) = 8192 * int n"
    using assms by (intro signed_take_bit_int_eq_self) auto
  show ?thesis
    unfolding eq sint_word_of_int64 fits by simp
qed

subsection \<open>Lists\<close>

lemma split_middle:
  "xs @ ys @ zs = pre @ w # post \<Longrightarrow> w \<notin> set xs \<Longrightarrow> w \<notin> set zs \<Longrightarrow>
     \<exists>pre' post'. ys = pre' @ w # post' \<and> pre = xs @ pre' \<and> post = post' @ zs"
proof (induction xs arbitrary: pre)
  case Nil
  then show ?case
    by (auto simp: append_eq_append_conv2 append_eq_Cons_conv Cons_eq_append_conv)
next
  case (Cons x xs)
  then show ?case
    by (cases pre) auto
qed

lemma frames_simps [simp]:
  "frames [] = 0"
  "frames (a # tr) = (if a = WritePreparedMessage True then Suc (frames tr) else frames tr)"
  "frames (xs @ ys) = frames xs + frames ys"
  by (simp_all add: frames_def)

subsection \<open>The loop\<close>

lemma fst_emit [simp]: "fst (emit ws r) = ws @ fst r"
  by (simp add: emit_def)

lemma snd_emit [simp]: "snd (emit ws r) = snd r"
  by (simp add: emit_def)

lemma loop_no_WriteControl:
  "a \<in> set (fst (loop cs fd d c bw evs)) \<Longrightarrow> \<not> is_WriteControl a"
proof (induction evs arbitrary: c bw)
  case Nil
  then show ?case by simp
next
  case (Cons ev evs)
  then show ?case
    by (cases ev) (auto simp: Let_def split: if_splits)
qed

lemma loop_deadlines:
  "SetWriteDeadline dl \<in> set (fst (loop cs fd d c bw evs)) \<Longrightarrow> dl = NowPlus (defaultTimeout cs)"
proof (induction evs arbitrary: c bw)
  case Nil
  then show ?case by simp
next
  case (Cons ev evs)
  then show ?case
    by (cases ev) (auto simp: Let_def split: if_splits)
qed

lemma loop_failed_write_last:
  "fst (loop cs fd d c bw evs) = pre @ w # post \<Longrightarrow> failed_write w \<Longrightarrow>
     post = [] \<and> snd (loop cs fd d c bw evs) = WriteFailed"
proof (induction evs arbitrary: c bw pre)
  case Nil
  then show ?case by simp
next
  case (Cons ev evs)
  then show ?case
    by (cases ev) (auto simp: Let_def Cons_eq_append_conv split: if_splits)
qed

lemma loop_NumBytes:
  "fst (loop cs fd d c bw evs) = pre @ WriteJSON m ok # post \<Longrightarrow>
     NumBytes m = c + bufferSize * of_nat (frames pre)"
proof (induction evs arbitrary: c bw pre)
  case Nil
  then show ?case by simp
next
  case (Cons ev evs)
  then show ?case
    by (cases ev) (auto simp: Let_def Cons_eq_append_conv algebra_simps split: if_splits)
qed

lemma loop_DurationElapsed:
  "snd (loop cs fd d c bw evs) = DurationElapsed now \<Longrightarrow>
     sint d \<le> sint now \<and>
     (\<exists>pre ok post. evs = pre @ NoTick now ok # post \<and>
        (\<forall>n ok'. NoTick n ok' \<in> set pre \<longrightarrow> sint n < sint d))"
proof (induction evs arbitrary: c bw)
  case Nil
  then show ?case by simp
next
  case (Cons ev evs)
  show ?case
  proof (cases ev)
    case (Tick t info ok)
    with Cons.prems obtain bw' where "snd (loop cs fd d c bw' evs) = DurationElapsed now"
      by (auto simp: Let_def split: if_splits)
    from Cons.IH [OF this] obtain pre ok' post where le: "sint d \<le> sint now"
      and "evs = pre @ NoTick now ok' # post"
      and "\<forall>n ok'. NoTick n ok' \<in> set pre \<longrightarrow> sint n < sint d"
      by blast
    with Tick have "ev # evs = (ev # pre) @ NoTick now ok' # post
        \<and> (\<forall>n ok'. NoTick n ok' \<in> set (ev # pre) \<longrightarrow> sint n < sint d)"
      by simp
    with le show ?thesis by blast
  next
    case (NoTick now' ok)
    show ?thesis
    proof (cases "sint d \<le> sint now'")
      case True
      with NoTick Cons.prems have same: "now' = now" by simp
      with True NoTick have "ev # evs = [] @ NoTick now ok # evs
        \<and> (\<forall>n ok'. NoTick n ok' \<in> set [] \<longrightarrow> sint n < sint d)" by simp
      with True same show ?thesis by blast
    next
      case False
      with NoTick Cons.prems
      have "snd (loop cs fd d (c + bufferSize) bw evs) = DurationElapsed now"
        by (auto simp: Let_def split: if_splits)
      from Cons.IH [OF this] obtain pre ok' post where le: "sint d \<le> sint now"
        and "evs = pre @ NoTick now ok' # post"
        and "\<forall>n ok'. NoTick n ok' \<in> set pre \<longrightarrow> sint n < sint d"
        by blast
      with NoTick False have "ev # evs = (ev # pre) @ NoTick now ok' # post
          \<and> (\<forall>n ok'. NoTick n ok' \<in> set (ev # pre) \<longrightarrow> sint n < sint d)"
        by auto
      with le show ?thesis by blast
    qed
  qed
qed

lemma loop_Plateau_one:
  "snd (loop cs fd d c bw evs) = BandwidthPlateau \<Longrightarrow>
     fd \<noteq> - 1 \<and> 1 \<le> length (filter has_sample evs)"
proof (induction evs arbitrary: c bw)
  case Nil
  then show ?case by simp
next
  case (Cons ev evs)
  then show ?case
    by (cases ev) (fastforce simp: Let_def split: if_splits option.splits)+
qed

lemma loop_Plateau_two:
  "snd (loop cs fd d c 0 evs) = BandwidthPlateau \<Longrightarrow> 2 \<le> length (filter has_sample evs)"
proof (induction evs arbitrary: c)
  case Nil
  then show ?case by simp
next
  case (Cons ev evs)
  show ?case
  proof (cases ev)
    case (Tick t info ok)
    with Cons show ?thesis
      by (auto simp: Let_def stoppableAccordingToBW_def
          split: if_splits option.splits dest: loop_Plateau_one)
  next
    case (NoTick now ok)
    with Cons show ?thesis
      by (auto simp: Let_def split: if_splits)
  qed
qed

subsection \<open>The handler\<close>

lemma query_duration_cases:
  "query_duration request =
     (if Get (URL_Query request) ''duration'' = [] then Some defaultDuration
      else case Atoi (Get (URL_Query request) ''duration'') of
             Inl err \<Rightarrow> None
           | Inr v \<Rightarrow> if 0 \<le> v \<and> v \<le> 30 then Some (Second * word_of_int v) else None)"
  by (auto simp: query_duration_def Let_def maxDuration_def split: sum.splits)

lemma ServeHTTP_InvalidDuration:
  "snd (ServeHTTP cs request e) = InvalidDuration \<longleftrightarrow> query_duration request = None"
  by (auto simp: ServeHTTP_def split: option.splits prod.splits)

lemma ServeHTTP_None:
  "query_duration request = None \<Longrightarrow> ServeHTTP cs request e = (bad_request, InvalidDuration)"
  by (simp add: ServeHTTP_def)

lemma ServeHTTP_Session:
  assumes "ServeHTTP cs request e = (tr, Session d out)"
  shows "query_duration request = Some d"
    and "Get (Header request) ''Sec-WebSocket-Protocol'' = SecWebSocketProtocol cs"
    and "out = snd (loop cs (ExtractBBRFd e) d 0 0 (events e))"
    and "tr = started cs @ fst (loop cs (ExtractBBRFd e) d 0 0 (events e)) @ finish cs out"
  using assms
  by (auto simp: ServeHTTP_def split: option.splits if_splits prod.splits)

lemma ServeHTTP_no_Session:
  assumes "ServeHTTP cs request e = (tr, res)" and "\<forall>d out. res \<noteq> Session d out"
  shows "tr = bad_request
     \<or> tr = [Upgrade [(''Sec-WebSocket-Protocol'', SecWebSocketProtocol cs)] False]
     \<or> tr = opened cs @ [ConnClose]"
  using assms
  by (auto simp: ServeHTTP_def split: option.splits if_splits prod.splits)

lemma ServeHTTP_NumBytes:
  assumes "ServeHTTP cs request e = (tr, res)" and "tr = pre @ WriteJSON m ok # post"
  shows "NumBytes m = bufferSize * word_of_nat (frames pre)"
proof (cases "\<exists>d out. res = Session d out")
  case False
  with assms(1) have "tr = bad_request
      \<or> tr = [Upgrade [(''Sec-WebSocket-Protocol'', SecWebSocketProtocol cs)] False]
      \<or> tr = opened cs @ [ConnClose]"
    by (intro ServeHTTP_no_Session) auto
  then have "WriteJSON m ok \<notin> set tr"
    by (auto simp: bad_request_def opened_def)
  with assms(2) show ?thesis by simp
next
  case True
  then obtain d out where res: "res = Session d out" by blast
  let ?l = "loop cs (ExtractBBRFd e) d 0 0 (events e)"
  from assms(1) res have tr: "tr = started cs @ fst ?l @ finish cs out"
    by (simp add: ServeHTTP_Session)
  have "WriteJSON m ok \<notin> set (started cs)" "WriteJSON m ok \<notin> set (finish cs out)"
    by (auto simp: started_def opened_def finish_def closing_def split: outcome.splits)
  with tr assms(2) obtain pre' post' where mid: "fst ?l = pre' @ WriteJSON m ok # post'"
    and pre: "pre = started cs @ pre'"
    using split_middle [of "started cs" "fst ?l" "finish cs out" pre "WriteJSON m ok" post]
    by auto
  have "frames (started cs) = 0"
    by (simp add: started_def opened_def)
  with pre have "frames pre = frames pre'" by simp
  with loop_NumBytes [OF mid] show ?thesis by simp
qed

section \<open>The claims\<close>


subsection \<open>The stopping heuristic\<close>


text \<open>
  C2. While no sample has been taken, the retained bandwidth is its initial 0, and the
  decision on a first sample \<open>cur \<ge> 0\<close> is "not stoppable": the function returns
  false, the iteration that takes the sample goes on with the rest of the loop, and a
  session that the heuristic ends has taken at least two samples.
\<close>

theorem first_sample_never_stops:
  assumes "0 \<le> cur"
  shows "\<not> stoppableAccordingToBW 0 cur
       \<and> snd (loop cs fd d c 0 (Tick t (Some (cur, rtt)) True # evs))
           = snd (loop cs fd d c (if fd \<noteq> - 1 then cur else 0) evs)
       \<and> (\<forall>tr d'. ServeHTTP cs request e = (tr, Session d' BandwidthPlateau) \<longrightarrow>
            2 \<le> length (filter has_sample (events e)))"
proof (intro conjI allI impI)
  show stop: "\<not> stoppableAccordingToBW 0 cur"
    using assms by (simp add: stoppableAccordingToBW_def)
  then show "snd (loop cs fd d c 0 (Tick t (Some (cur, rtt)) True # evs))
      = snd (loop cs fd d c (if fd \<noteq> - 1 then cur else 0) evs)"
    by (simp add: Let_def)
  fix tr d'
  assume "ServeHTTP cs request e = (tr, Session d' BandwidthPlateau)"
  from ServeHTTP_Session(3) [OF this]
  show "2 \<le> length (filter has_sample (events e))"
    by (intro loop_Plateau_two [of cs "ExtractBBRFd e" d' 0]) simp
qed

text \<open>
  The theorem at the first sample 100 bytes/s, and at the session of
  \<open>plateau_events\<close>, which the heuristic ends at its second sample.
\<close>

theorem first_sample_never_stops_witness:
  "(0 :: real) \<le> 100
   \<and> \<not> stoppableAccordingToBW 0 100
   \<and> snd (ServeHTTP sample_consts (sample_request [''1''] [''net.measurementlab.ndt.v7''])
            (sample_env 5 plateau_events)) = Session 1000000000 BandwidthPlateau
   \<and> 2 \<le> length (filter has_sample plateau_events)"
  using first_sample_never_stops [where cur = 100 and cs = sample_consts
      and request = "sample_request [''1''] [''net.measurementlab.ndt.v7'']"
      and e = "sample_env 5 plateau_events"]
  by (simp add: plateau_run) (simp add: sample_env_def)

text \<open>
  C3, as stated, fails: with \<open>prev = 0\<close> and \<open>cur = 0\<close> the condition
  \<open>cur - prev < 0.25 * prev\<close> is \<open>0 < 0\<close>, and the function returns false.
\<close>

theorem stoppable_prev_zero_counterexample:
  "\<not> stoppableAccordingToBW 0 0"
  by (simp add: stoppableAccordingToBW_def)

text \<open>
  C3, amended. When \<open>prev = 0\<close> the stopping condition is \<open>cur \<ge> 0\<close> together with
  \<open>cur < 0\<close>, which no sample satisfies: \<^verbatim>\<open>stoppableAccordingToBW(0, cur)\<close> is
  false for every \<open>cur\<close>.
\<close>

theorem stoppable_prev_zero_never:
  "(stoppableAccordingToBW 0 cur \<longleftrightarrow> cur \<ge> 0 \<and> cur < 0)
   \<and> \<not> stoppableAccordingToBW 0 cur"
  by (simp add: stoppableAccordingToBW_def)

subsection \<open>Validation of the request\<close>

text \<open>
  C4, as stated, fails: a request whose query string is \<^verbatim>\<open>duration=\<close> supplies
  the empty string as the value, which \<^verbatim>\<open>strconv.Atoi\<close> does not parse, and the
  handler upgrades the connection and runs a session of 10 seconds instead of
  answering 400.
\<close>

theorem empty_duration_counterexample:
  "URL_Query (sample_request [[]] [''net.measurementlab.ndt.v7'']) ''duration'' = [[]]
   \<and> Atoi [] = Inl ErrSyntax
   \<and> ServeHTTP sample_consts (sample_request [[]] [''net.measurementlab.ndt.v7''])
        (sample_env (- 1) [NoTick 10000000000 True]) =
      ([Upgrade [(''Sec-WebSocket-Protocol'', ''net.measurementlab.ndt.v7'')] True,
        SetReadLimit 131072, NewTicker 250000000,
        WriteControl 8 (1000, []) (NowPlus 7000000000), TickerStop, ConnClose],
       Session 10000000000 (DurationElapsed 10000000000))"
  by (simp add: sample_defs)

text \<open>
  C4, amended. Let \<open>s\<close> be the first value of \<^verbatim>\<open>duration\<close> in the query string,
  the empty string when there is none. If \<open>s\<close> is not empty and parses as a decimal
  integer \<open>v\<close> in \<open>[0, 30]\<close>, the handler accepts it and the session's duration is
  \<open>v\<close> seconds. If \<open>s\<close> is not empty and is anything else (not an integer,
  negative, or above 30), the handler answers 400 with \<^verbatim>\<open>Connection: Close\<close> and does
  nothing else, so there is no upgrade. If \<open>s\<close> is empty (the parameter is absent, or
  present with an empty value), the duration is the default of 10 seconds.
\<close>

theorem duration_validation:
  assumes "s = Get (URL_Query request) ''duration''"
  shows "(\<forall>v. s \<noteq> [] \<and> Atoi s = Inr v \<and> 0 \<le> v \<and> v \<le> 30 \<longrightarrow>
            query_duration request = Some (Second * word_of_int v)
            \<and> sint (Second * word_of_int v :: int64) = v * 1000000000
            \<and> snd (ServeHTTP cs request e) \<noteq> InvalidDuration
            \<and> (\<forall>tr d out. ServeHTTP cs request e = (tr, Session d out) \<longrightarrow>
                  d = Second * word_of_int v))
       \<and> (s \<noteq> [] \<and> \<not> (\<exists>v. Atoi s = Inr v \<and> 0 \<le> v \<and> v \<le> 30) \<longrightarrow>
            ServeHTTP cs request e =
              ([Header_Set ''Connection'' ''Close'', WriteHeader 400], InvalidDuration))
       \<and> (s = [] \<longrightarrow>
            query_duration request = Some defaultDuration
            \<and> sint defaultDuration = 10 * 1000000000
            \<and> snd (ServeHTTP cs request e) \<noteq> InvalidDuration
            \<and> (\<forall>tr d out. ServeHTTP cs request e = (tr, Session d out) \<longrightarrow>
                  d = defaultDuration))"
proof (intro conjI allI impI)
  fix v
  assume a: "s \<noteq> [] \<and> Atoi s = Inr v \<and> 0 \<le> v \<and> v \<le> 30"
  with assms show q: "query_duration request = Some (Second * word_of_int v)"
    by (simp add: query_duration_cases)
  from a show "sint (Second * word_of_int v :: int64) = v * 1000000000"
    by (simp add: sint_seconds)
  from q show "snd (ServeHTTP cs request e) \<noteq> InvalidDuration"
    by (simp add: ServeHTTP_InvalidDuration)
  fix tr d out
  assume "ServeHTTP cs request e = (tr, Session d out)"
  from ServeHTTP_Session(1) [OF this] q show "d = Second * word_of_int v"
    by simp
next
  assume "s \<noteq> [] \<and> \<not> (\<exists>v. Atoi s = Inr v \<and> 0 \<le> v \<and> v \<le> 30)"
  with assms have "query_duration request = None"
    by (auto simp: query_duration_cases split: sum.splits)
  then show "ServeHTTP cs request e =
      ([Header_Set ''Connection'' ''Close'', WriteHeader 400], InvalidDuration)"
    by (simp add: ServeHTTP_None bad_request_def StatusBadRequest_def)
next
  assume "s = []"
  with assms show q: "query_duration request = Some defaultDuration"
    by (simp add: query_duration_cases)
  show "sint defaultDuration = 10 * 1000000000"
    by (rule sint_defaultDuration)
  from q show "snd (ServeHTTP cs request e) \<noteq> InvalidDuration"
    by (simp add: ServeHTTP_InvalidDuration)
  fix tr d out
  assume "ServeHTTP cs request e = (tr, Session d out)"
  from ServeHTTP_Session(1) [OF this] q show "d = defaultDuration"
    by simp
qed

text \<open>
  The theorem at \<^verbatim>\<open>duration=7\<close>, at \<^verbatim>\<open>duration=abc\<close>, at \<^verbatim>\<open>duration=31\<close>, at
  \<^verbatim>\<open>duration=-1\<close> and at a request without the parameter.
\<close>

theorem duration_validation_witness:
  "Atoi ''7'' = Inr 7
   \<and> query_duration (sample_request [''7''] [''net.measurementlab.ndt.v7'']) = Some 7000000000
   \<and> sint (7000000000 :: int64) = 7 * 1000000000
   \<and> ServeHTTP sample_consts (sample_request [''abc''] [''net.measurementlab.ndt.v7''])
        (sample_env 5 plateau_events) =
      ([Header_Set ''Connection'' ''Close'', WriteHeader 400], InvalidDuration)
   \<and> ServeHTTP sample_consts (sample_request [''31''] [''net.measurementlab.ndt.v7''])
        (sample_env 5 plateau_events) =
      ([Header_Set ''Connection'' ''Close'', WriteHeader 400], InvalidDuration)
   \<and> ServeHTTP sample_consts (sample_request [''-1''] [''net.measurementlab.ndt.v7''])
        (sample_env 5 plateau_events) =
      ([Header_Set ''Connection'' ''Close'', WriteHeader 400], InvalidDuration)
   \<and> query_duration (sample_request [] [''net.measurementlab.ndt.v7'']) = Some 10000000000"
  using
    duration_validation [where s = "''7''"
      and request = "sample_request [''7''] [''net.measurementlab.ndt.v7'']"
      and cs = sample_consts and e = "sample_env 5 plateau_events"]
    duration_validation [where s = "''abc''"
      and request = "sample_request [''abc''] [''net.measurementlab.ndt.v7'']"
      and cs = sample_consts and e = "sample_env 5 plateau_events"]
    duration_validation [where s = "''31''"
      and request = "sample_request [''31''] [''net.measurementlab.ndt.v7'']"
      and cs = sample_consts and e = "sample_env 5 plateau_events"]
    duration_validation [where s = "''-1''"
      and request = "sample_request [''-1''] [''net.measurementlab.ndt.v7'']"
      and cs = sample_consts and e = "sample_env 5 plateau_events"]
    duration_validation [where s = "[]"
      and request = "sample_request [] [''net.measurementlab.ndt.v7'']"
      and cs = sample_consts and e = "sample_env 5 plateau_events"]
  by (simp add: sample_request_def Get_def Atoi_def ParseUint_def digit_def Second_def
      defaultDuration_def)

text \<open>
  C5. When the first value of the \<^verbatim>\<open>Sec-WebSocket-Protocol\<close> header (the empty
  string when the header is missing) is not the server's subprotocol identifier, the
  handler answers 400 with \<^verbatim>\<open>Connection: Close\<close> and does nothing else, whether it
  is the duration or the header that it rejects: no upgrade is attempted.
\<close>

theorem missing_subprotocol_rejected:
  assumes "Get (Header request) ''Sec-WebSocket-Protocol'' \<noteq> SecWebSocketProtocol cs"
  shows "fst (ServeHTTP cs request e) = [Header_Set ''Connection'' ''Close'', WriteHeader 400]
       \<and> (snd (ServeHTTP cs request e) = InvalidDuration
            \<or> snd (ServeHTTP cs request e) = MissingProtocol)
       \<and> (\<forall>hs ok. Upgrade hs ok \<notin> set (fst (ServeHTTP cs request e)))"
  using assms
  by (auto simp: ServeHTTP_def bad_request_def StatusBadRequest_def split: option.splits)

text \<open>
  The theorem at a request without the header and a valid duration, and at a request
  with another subprotocol and an invalid duration.
\<close>

theorem missing_subprotocol_rejected_witness:
  "Get (Header (sample_request [''5''] [])) ''Sec-WebSocket-Protocol'' = []
   \<and> ServeHTTP sample_consts (sample_request [''5''] []) (sample_env 5 plateau_events) =
      ([Header_Set ''Connection'' ''Close'', WriteHeader 400], MissingProtocol)
   \<and> ServeHTTP sample_consts (sample_request [''abc''] [''chat'']) (sample_env 5 plateau_events) =
      ([Header_Set ''Connection'' ''Close'', WriteHeader 400], InvalidDuration)"
  using
    missing_subprotocol_rejected [where request = "sample_request [''5''] []"
      and cs = sample_consts and e = "sample_env 5 plateau_events"]
    missing_subprotocol_rejected [where request = "sample_request [''abc''] [''chat'']"
      and cs = sample_consts and e = "sample_env 5 plateau_events"]
  by (simp add: sample_defs)


end
